theory Spec2Isabelle
  imports Complex_Main "HOL-Library.Monad_Syntax" "HOL-Library.Signed_Division"
begin

section \<open>Polynomial definitions of the Flux Reconstruction solver (polynomials.cpp)\<close>

text \<open>
  Conventions of the embedding.
  \<^item> A C++ \<open>double\<close> is read as a \<^typ>\<open>real\<close>: rounding, infinities and NaN are not
    represented, so every equation below is one of exact arithmetic. Where the source
    divides by zero or takes the root of a negative number, HOL's total operations
    return a real (\<open>x / 0 = 0\<close>, \<open>sqrt (- x) = - sqrt x\<close>); no statement below rests on
    such a value unless it says so.
  \<^item> A C++ \<open>int\<close> is read as an \<^typ>\<open>int\<close> and a \<open>uint\<close> as a \<^typ>\<open>nat\<close>; signed
    overflow, which the language leaves undefined, is not represented.
  \<^item> The exception to both is \<open>eval_gamma\<close>, whose behaviour on the whole range of its
    \<open>int\<close> argument is a subject of its own: there the 32-bit range of \<open>int\<close> and the
    finite range of \<open>double\<close> are represented.
  \<^item> \<open>pow(x, n)\<close> with an integral exponent is \<^term>\<open>x powi n\<close>.
\<close>

subsection \<open>Errors and loops\<close>

text \<open>
  Modelled from the spec: the macro \<open>FatalError(msg)\<close> is defined in a header that is
  missing; the spec has it terminate the evaluation at once with a descriptive fatal
  error. A function that can reach it returns \<open>error + real\<close>, with \<open>Inl (FatalError msg)\<close>
  for the fatal error. \<open>OutOfRange\<close> stands for a read past the end of a \<open>std::vector\<close>
  and \<open>SignedOverflow\<close> for an \<open>int\<close> operation whose result is not an \<open>int\<close>; both are
  undefined in the source.
\<close>

datatype error = FatalError string | OutOfRange | SignedOverflow

text \<open>\<open>for (i = lo; i < hi; i++) s = body i s\<close> over \<open>int\<close> counters.\<close>

function for_loop :: "int \<Rightarrow> int \<Rightarrow> (int \<Rightarrow> 's \<Rightarrow> 's) \<Rightarrow> 's \<Rightarrow> 's" where
  "for_loop i hi body s = (if i < hi then for_loop (i + 1) hi body (body i s) else s)"
  by pat_completeness auto
termination
  by (relation "measure (\<lambda>(i, hi, body, s). nat (hi - i))") auto

declare for_loop.simps [simp del]

text \<open>The same loop over \<open>uint\<close> counters.\<close>

function for_loop_uint :: "nat \<Rightarrow> nat \<Rightarrow> (nat \<Rightarrow> 's \<Rightarrow> 's) \<Rightarrow> 's \<Rightarrow> 's" where
  "for_loop_uint i hi body s =
     (if i < hi then for_loop_uint (i + 1) hi body (body i s) else s)"
  by pat_completeness auto
termination
  by (relation "measure (\<lambda>(i, hi, body, s). hi - i)") auto

declare for_loop_uint.simps [simp del]

subsection \<open>Legendre polynomials\<close>

function Legendre :: "real \<Rightarrow> int \<Rightarrow> real" where
  "Legendre in_r in_mode =
     (if in_mode < 0 then 0
      else if in_mode = 0 then 1
      else if in_mode = 1 then in_r
      else (of_int (2 * in_mode - 1) * in_r * Legendre in_r (in_mode - 1)
            - of_int (in_mode - 1) * Legendre in_r (in_mode - 2)) / of_int in_mode)"
  by pat_completeness auto
termination
  by (relation "measure (\<lambda>(in_r, in_mode). nat in_mode)") auto

declare Legendre.simps [simp del]

definition dLegendre :: "real \<Rightarrow> int \<Rightarrow> real" where
  "dLegendre in_r in_mode =
     (let dLeg = 0 in
      if in_mode = 0 then 0
      else if in_r > -1 \<and> in_r < 1 then
        of_int in_mode * ((in_r * Legendre in_r in_mode) - Legendre in_r (in_mode - 1))
          / (in_r * in_r - 1)
      else
        (let dLeg = (if in_r = -1
                     then (-1) powi (in_mode - 1) * 0.5 * of_int in_mode * (of_int in_mode + 1)
                     else dLeg);
             dLeg = (if in_r = 1
                     then 0.5 * of_int in_mode * (of_int in_mode + 1)
                     else dLeg)
         in dLeg))"


subsection \<open>Lagrange interpolation\<close>

text \<open>
  \<open>x_lag[i]\<close> on a \<open>std::vector\<close> is not range-checked; a read at or past \<open>size()\<close> is
  undefined in the source and is the value \<open>Inl OutOfRange\<close> here. A zero denominator
  (two equal nodes) is not represented: HOL's division returns 0 there.
\<close>

definition Lagrange :: "real list \<Rightarrow> real \<Rightarrow> nat \<Rightarrow> error + real" where
  "Lagrange x_lag y mode =
     for_loop_uint 0 (length x_lag)
       (\<lambda>i lag.
          if i \<noteq> mode then
            (case lag of
               Inl e \<Rightarrow> Inl e
             | Inr l \<Rightarrow>
                 if i < length x_lag \<and> mode < length x_lag
                 then Inr (l * ((y - x_lag ! i) / (x_lag ! mode - x_lag ! i)))
                 else Inl OutOfRange)
          else lag)
       (Inr 1)"

subsection \<open>Hierarchical Legendre basis and exponential filter on the square\<close>

text \<open>
  The state of the diagonal sweep is the pair of the running counter \<open>mode\<close> and the
  value found so far.
\<close>

definition Legendre2D_hierarchical_sweep :: "int \<Rightarrow> real list \<Rightarrow> int \<Rightarrow> int \<times> (error + real)" where
  "Legendre2D_hierarchical_sweep in_mode in_loc in_basis_order =
     for_loop 0 (in_basis_order * in_basis_order + 1)
       (\<lambda>k. for_loop 0 (k + 1)
          (\<lambda>j (mode, leg_basis).
             let i = k - j in
             if i \<le> in_basis_order \<and> j \<le> in_basis_order then
               (mode + 1,
                if mode = in_mode then
                  (if 1 < length in_loc
                   then Inr (Legendre (in_loc ! 0) i * Legendre (in_loc ! 1) j)
                   else Inl OutOfRange)
                else leg_basis)
             else (mode, leg_basis)))
       (0, Inr 0)"

definition Legendre2D_hierarchical :: "int \<Rightarrow> real list \<Rightarrow> int \<Rightarrow> error + real" where
  "Legendre2D_hierarchical in_mode in_loc in_basis_order =
     (let n_dof = (in_basis_order + 1) * (in_basis_order + 1) in
      if \<not> (in_mode < n_dof)
      then Inl (FatalError ''Invalid mode when evaluating Legendre basis.'')
      else snd (Legendre2D_hierarchical_sweep in_mode in_loc in_basis_order))"

text \<open>
  \<open>pow(x, y)\<close> on two doubles, for a base \<open>x \<ge> 0\<close> (the filter's \<open>eta\<close> is a quotient of
  non-negative integers): 1 for \<open>y = 0\<close>, else \<open>x\<close> to the power \<open>y\<close>. The infinite
  result of \<open>pow(0, y)\<close> with \<open>y < 0\<close> is not represented.
\<close>

definition pow_d :: "real \<Rightarrow> real \<Rightarrow> real" where
  "pow_d x y = (if y = 0 then 1 else x powr y)"

definition exponential_filter_sweep :: "int \<Rightarrow> int \<Rightarrow> real \<Rightarrow> int \<times> real" where
  "exponential_filter_sweep in_mode inBasisOrder exponent =
     (let n_dof = (inBasisOrder + 1) * (inBasisOrder + 1) in
      for_loop 0 (inBasisOrder * inBasisOrder + 1)
        (\<lambda>k. for_loop 0 (k + 1)
           (\<lambda>j (mode, sigma).
              let i = k - j in
              if i \<le> inBasisOrder \<and> j \<le> inBasisOrder then
                (mode + 1,
                 if mode = in_mode then
                   (let eta = of_int (i + j) / of_int n_dof
                    in exp (-1 * pow_d eta exponent))
                 else sigma)
              else (mode, sigma)))
        (0, 0))"

definition exponential_filter :: "int \<Rightarrow> int \<Rightarrow> real \<Rightarrow> error + real" where
  "exponential_filter in_mode inBasisOrder exponent =
     (let n_dof = (inBasisOrder + 1) * (inBasisOrder + 1) in
      if \<not> (in_mode < n_dof)
      then Inl (FatalError ''Invalid mode when evaluating exponential filter.'')
      else Inr (snd (exponential_filter_sweep in_mode inBasisOrder exponent)))"

subsection \<open>Gamma function on integers\<close>

text \<open>
  The 32-bit \<open>int\<close>: an operation is defined when its result lies between \<open>INT_MIN\<close> and
  \<open>INT_MAX\<close>.
\<close>

definition INT_MIN :: int where
  "INT_MIN = - (2 ^ 31)"

definition INT_MAX :: int where
  "INT_MAX = 2 ^ 31 - 1"

definition in_int :: "int \<Rightarrow> bool" where
  "in_int v \<longleftrightarrow> INT_MIN \<le> v \<and> v \<le> INT_MAX"

text \<open>
  The range of a \<open>double\<close>: a finite value (a real; rounding is not represented), an
  infinity or NaN. \<open>DBL_MAX\<close> is the largest finite double, \<open>(2\<^sup>5\<^sup>3 - 1) * 2\<^sup>9\<^sup>7\<^sup>1\<close>; an
  arithmetic result of larger magnitude is an infinity.
\<close>

datatype double = Finite real | PosInf | NegInf | NaN

definition DBL_MAX :: real where
  "DBL_MAX = (2 ^ 53 - 1) * 2 ^ 971"

definition double_of_real :: "real \<Rightarrow> double" where
  "double_of_real p =
     (if DBL_MAX < p then PosInf else if p < - DBL_MAX then NegInf else Finite p)"

definition signed_inf :: "real \<Rightarrow> double" where
  "signed_inf x = (if x = 0 then NaN else if 0 < x then PosInf else NegInf)"

text \<open>The product of two doubles.\<close>

fun dmult :: "double \<Rightarrow> double \<Rightarrow> double" where
  "dmult (Finite x) (Finite y) = double_of_real (x * y)"
| "dmult NaN y = NaN"
| "dmult x NaN = NaN"
| "dmult (Finite x) PosInf = signed_inf x"
| "dmult (Finite x) NegInf = signed_inf (- x)"
| "dmult PosInf (Finite y) = signed_inf y"
| "dmult NegInf (Finite y) = signed_inf (- y)"
| "dmult PosInf PosInf = PosInf"
| "dmult PosInf NegInf = NegInf"
| "dmult NegInf PosInf = NegInf"
| "dmult NegInf NegInf = PosInf"

text \<open>
  \<open>eval_gamma\<close>: the \<open>int\<close> operations are \<open>in_n - 1\<close> (the initial value), \<open>in_n - 2\<close> (the
  loop bound), \<open>in_n - 2 - i\<close> (the factor) and \<open>i++\<close>; the conversion of an \<open>int\<close> to
  \<open>double\<close> is exact. The state of the loop is \<open>gamma_val\<close>, or the undefined operation
  that was met.
\<close>

definition eval_gamma :: "int \<Rightarrow> error + double" where
  "eval_gamma in_n =
     (if in_n = 1 then Inr (Finite 1)
      else if \<not> in_int (in_n - 1) then Inl SignedOverflow
      else if \<not> in_int (in_n - 2) then Inl SignedOverflow
      else for_loop 0 (in_n - 2)
             (\<lambda>i s. case s of
                       Inl e \<Rightarrow> Inl e
                     | Inr gamma_val \<Rightarrow>
                         if in_int (in_n - 2 - i) \<and> in_int (i + 1)
                         then Inr (dmult gamma_val (Finite (of_int (in_n - 2 - i))))
                         else Inl SignedOverflow)
             (Inr (Finite (of_int (in_n - 1)))))"

text \<open>
  The value of a call of \<open>eval_gamma\<close> inside the real-valued code below: the finite
  double it returns, and \<open>None\<close> when the call is undefined or returns no finite double.
\<close>

definition finite_gamma :: "int \<Rightarrow> real option" where
  "finite_gamma in_n =
     (case eval_gamma in_n of
        Inr (Finite v) \<Rightarrow> Some v
      | _ \<Rightarrow> None)"

subsection \<open>Normalised Jacobi polynomials\<close>

text \<open>
  The recursion of \<open>eval_jacobi\<close> descends from \<open>in_mode\<close> to \<open>in_mode - 1\<close> and
  \<open>in_mode - 2\<close> and stops only at 0 and 1, so it does not return for a negative
  \<open>in_mode\<close>: the result is an option, \<open>None\<close> for a call that does not return, and also
  for one whose normalisation has no finite value of \<open>eval_gamma\<close> to work with.
\<close>

partial_function (option) eval_jacobi :: "real \<Rightarrow> int \<Rightarrow> int \<Rightarrow> int \<Rightarrow> real option" where
  "eval_jacobi in_r in_alpha in_beta in_mode =
     (if in_mode = 0 then
        do {
          let dtemp_0 = 2 powi (- in_alpha - in_beta - 1);
          dtemp_1 \<leftarrow> finite_gamma (in_alpha + in_beta + 2);
          gamma_a \<leftarrow> finite_gamma (in_alpha + 1);
          gamma_b \<leftarrow> finite_gamma (in_beta + 1);
          let dtemp_2 = gamma_a * gamma_b;
          Some (sqrt (dtemp_0 * (dtemp_1 / dtemp_2)))
        }
      else if in_mode = 1 then
        do {
          let dtemp_0 = 2 powi (- in_alpha - in_beta - 1);
          dtemp_1 \<leftarrow> finite_gamma (in_alpha + in_beta + 2);
          gamma_a \<leftarrow> finite_gamma (in_alpha + 1);
          gamma_b \<leftarrow> finite_gamma (in_beta + 1);
          let dtemp_2 = gamma_a * gamma_b;
          let dtemp_3 = of_int (in_alpha + in_beta + 3);
          let dtemp_4 = of_int ((in_alpha + 1) * (in_beta + 1));
          let dtemp_5 = in_r * of_int (in_alpha + in_beta + 2) + of_int (in_alpha - in_beta);
          Some (0.5 * sqrt (dtemp_0 * (dtemp_1 / dtemp_2)) * sqrt (dtemp_3 / dtemp_4) * dtemp_5)
        }
      else
        (let dtemp_0 = of_int (in_mode * (in_mode + in_alpha + in_beta)
                                * (in_mode + in_alpha) * (in_mode + in_beta));
             dtemp_1 = of_int (((2 * in_mode) + in_alpha + in_beta - 1)
                                * ((2 * in_mode) + in_alpha + in_beta + 1));
             dtemp_3 = of_int ((2 * in_mode) + in_alpha + in_beta);
             dtemp_4 = of_int ((in_mode - 1) * ((in_mode - 1) + in_alpha + in_beta)
                                * ((in_mode - 1) + in_alpha) * ((in_mode - 1) + in_beta));
             dtemp_5 = of_int (((2 * (in_mode - 1)) + in_alpha + in_beta - 1)
                                * ((2 * (in_mode - 1)) + in_alpha + in_beta + 1));
             dtemp_6 = of_int ((2 * (in_mode - 1)) + in_alpha + in_beta);
             dtemp_7 = of_int (- ((in_alpha * in_alpha) - (in_beta * in_beta)));
             dtemp_8 = of_int (((2 * (in_mode - 1)) + in_alpha + in_beta)
                                * ((2 * (in_mode - 1)) + in_alpha + in_beta + 2));
             dtemp_9 = (2 / dtemp_3) * sqrt (dtemp_0 / dtemp_1);
             dtemp_10 = (2 / dtemp_6) * sqrt (dtemp_4 / dtemp_5);
             dtemp_11 = dtemp_7 / dtemp_8
         in do {
              jac_a \<leftarrow> eval_jacobi in_r in_alpha in_beta (in_mode - 1);
              jac_b \<leftarrow> eval_jacobi in_r in_alpha in_beta (in_mode - 2);
              jac_c \<leftarrow> eval_jacobi in_r in_alpha in_beta (in_mode - 1);
              let dtemp_12 = in_r * jac_a;
              let dtemp_13 = dtemp_10 * jac_b;
              let dtemp_14 = dtemp_11 * jac_c;
              Some ((1 / dtemp_9) * (dtemp_12 - dtemp_13 - dtemp_14))
            }))"

definition eval_grad_jacobi :: "real \<Rightarrow> int \<Rightarrow> int \<Rightarrow> int \<Rightarrow> real option" where
  "eval_grad_jacobi in_r in_alpha in_beta in_mode =
     (if in_mode = 0 then Some 0
      else do {
        jac \<leftarrow> eval_jacobi in_r (in_alpha + 1) (in_beta + 1) (in_mode - 1);
        Some (sqrt (1 * of_int in_mode * of_int (in_mode + in_alpha + in_beta + 1)) * jac)
      })"

subsection \<open>Collapsed coordinates\<close>

text \<open>
  The struct \<open>point\<close> is declared in a header outside polynomials.cpp; \<open>rs_to_ab\<close> and the Dubiner
  functions use its fields \<open>x\<close> and \<open>y\<close> only. \<open>rs_to_ab\<close> starts from a default-constructed
  \<open>point ab\<close>, whose fields depend on that declaration: it is the parameter \<open>ab_init\<close>.
\<close>

record point =
  px :: real
  py :: real

definition rs_to_ab :: "point \<Rightarrow> point \<Rightarrow> point" where
  "rs_to_ab ab_init rs =
     (let ab = ab_init;
          ab = (if px rs = 1
                then ab\<lparr>px := -1\<rparr>
                else ab\<lparr>py := (2 * ((1 + px rs) / (1 - py rs))) - 1\<rparr>);
          ab = ab\<lparr>py := py rs\<rparr>
      in ab)"

subsection \<open>Dubiner basis on the triangle\<close>

text \<open>
  The state of each sweep is the pair of the running counter \<open>mode\<close> and the value
  found so far; it is an option because the sweep calls \<open>eval_jacobi\<close>. The result of each
  function is \<open>None\<close> when the call does not return, \<open>Some (Inl e)\<close> for a fatal error
  and \<open>Some (Inr v)\<close> for the value \<open>v\<close>.
\<close>

definition eval_dubiner_basis_2d_sweep :: "point \<Rightarrow> int \<Rightarrow> int \<Rightarrow> (int \<times> real) option" where
  "eval_dubiner_basis_2d_sweep ab in_mode in_basis_order =
     for_loop 0 (in_basis_order + 1)
       (\<lambda>k. for_loop 0 (k + 1)
          (\<lambda>j s. do {
             (mode, dubiner_basis_2d) \<leftarrow> s;
             let i = k - j;
             if mode = in_mode then do {
               jacobi_0 \<leftarrow> eval_jacobi (px ab) 0 0 i;
               jacobi_1 \<leftarrow> eval_jacobi (py ab) ((2 * i) + 1) 0 j;
               Some (mode + 1, sqrt 2 * jacobi_0 * jacobi_1 * (1 - py ab) powi i)
             } else Some (mode + 1, dubiner_basis_2d)
           }))
       (Some (0, 0))"

definition eval_dubiner_basis_2d :: "point \<Rightarrow> point \<Rightarrow> int \<Rightarrow> int \<Rightarrow> (error + real) option" where
  "eval_dubiner_basis_2d ab_init in_rs in_mode in_basis_order =
     (let n_dof = ((in_basis_order + 1) * (in_basis_order + 2)) sdiv 2 in
      if in_mode < n_dof then
        map_option (Inr \<circ> snd)
          (eval_dubiner_basis_2d_sweep (rs_to_ab ab_init in_rs) in_mode in_basis_order)
      else Some (Inl (FatalError ''Invalid mode when evaluating Dubiner basis.'')))"

definition eval_dr_dubiner_basis_2d_sweep :: "point \<Rightarrow> int \<Rightarrow> int \<Rightarrow> (int \<times> real) option" where
  "eval_dr_dubiner_basis_2d_sweep ab in_mode in_basis_order =
     for_loop 0 (in_basis_order + 1)
       (\<lambda>k. for_loop 0 (k + 1)
          (\<lambda>j s. do {
             (mode, dr_dubiner_basis_2d) \<leftarrow> s;
             let i = k - j;
             if mode = in_mode then do {
               jacobi_0 \<leftarrow> eval_grad_jacobi (px ab) 0 0 i;
               jacobi_1 \<leftarrow> eval_jacobi (py ab) ((2 * i) + 1) 0 j;
               Some (mode + 1,
                     if i = 0 then 0
                     else 2 * sqrt 2 * jacobi_0 * jacobi_1 * (1 - py ab) powi (i - 1))
             } else Some (mode + 1, dr_dubiner_basis_2d)
           }))
       (Some (0, 0))"

definition eval_dr_dubiner_basis_2d :: "point \<Rightarrow> point \<Rightarrow> int \<Rightarrow> int \<Rightarrow> (error + real) option" where
  "eval_dr_dubiner_basis_2d ab_init in_rs in_mode in_basis_order =
     (let n_dof = ((in_basis_order + 1) * (in_basis_order + 2)) sdiv 2 in
      if in_mode < n_dof then
        map_option (Inr \<circ> snd)
          (eval_dr_dubiner_basis_2d_sweep (rs_to_ab ab_init in_rs) in_mode in_basis_order)
      else Some (Inl (FatalError ''Invalid mode when evaluating basis.'')))"

definition eval_ds_dubiner_basis_2d_sweep :: "point \<Rightarrow> int \<Rightarrow> int \<Rightarrow> (int \<times> real) option" where
  "eval_ds_dubiner_basis_2d_sweep ab in_mode in_basis_order =
     for_loop 0 (in_basis_order + 1)
       (\<lambda>k. for_loop 0 (k + 1)
          (\<lambda>j s. do {
             (mode, ds_dubiner_basis_2d) \<leftarrow> s;
             let i = k - j;
             if mode = in_mode then do {
               jacobi_0 \<leftarrow> eval_grad_jacobi (px ab) 0 0 i;
               jacobi_1 \<leftarrow> eval_jacobi (py ab) ((2 * i) + 1) 0 j;
               jacobi_2 \<leftarrow> eval_jacobi (px ab) 0 0 i;
               grad_3 \<leftarrow> eval_grad_jacobi (py ab) ((2 * i) + 1) 0 j;
               let jacobi_3 = grad_3 * (1 - py ab) powi i;
               jac_4 \<leftarrow> eval_jacobi (py ab) ((2 * i) + 1) 0 j;
               let jacobi_4 = jac_4 * of_int i * (1 - py ab) powi (i - 1);
               Some (mode + 1,
                     if i = 0 then sqrt 2 * (jacobi_2 * jacobi_3)
                     else sqrt 2 * ((jacobi_0 * jacobi_1 * (1 - py ab) powi (i - 1) * (1 + px ab))
                                    + (jacobi_2 * (jacobi_3 - jacobi_4))))
             } else Some (mode + 1, ds_dubiner_basis_2d)
           }))
       (Some (0, 0))"

definition eval_ds_dubiner_basis_2d :: "point \<Rightarrow> point \<Rightarrow> int \<Rightarrow> int \<Rightarrow> (error + real) option" where
  "eval_ds_dubiner_basis_2d ab_init in_rs in_mode in_basis_order =
     (let n_dof = ((in_basis_order + 1) * (in_basis_order + 2)) sdiv 2 in
      if in_mode < n_dof then
        map_option (Inr \<circ> snd)
          (eval_ds_dubiner_basis_2d_sweep (rs_to_ab ab_init in_rs) in_mode in_basis_order)
      else Some (Inl (FatalError ''ERROR: Invalid mode when evaluating basis.'')))"

subsection \<open>VCJH correction functions\<close>

text \<open>
  The scheme tags \<open>DG\<close>, \<open>SD\<close>, \<open>HU\<close> and \<open>CPLUS\<close> are enumeration constants declared
  in a header outside polynomials.cpp; \<open>compute_eta\<close> takes them as the parameter \<open>tags\<close>.
\<close>

record scheme_tags =
  DG :: int
  SD :: int
  HU :: int
  CPLUS :: int

text \<open>
  Modelled from the spec: the helper \<open>factorial\<close> of funcs.hpp is missing; the spec names
  it as the factorial of the closed-form expression for the CPlus constant.
\<close>

definition factorial :: "int \<Rightarrow> real" where
  "factorial n = fact (nat n)"

definition compute_eta :: "scheme_tags \<Rightarrow> int \<Rightarrow> int \<Rightarrow> error + real" where
  "compute_eta tags vcjh_scheme order =
     (if order = 0 \<and> vcjh_scheme \<noteq> DG tags
      then Inl (FatalError ''ERROR: P=0 only compatible with DG. Set VCJH scheme type to 0!'')
      else if vcjh_scheme = DG tags then Inr 0
      else if vcjh_scheme = SD tags then
        Inr ((1 * of_int order) / (1 * of_int (order + 1)))
      else if vcjh_scheme = HU tags then
        Inr ((1 * of_int (order + 1)) / (1 * of_int order))
      else if vcjh_scheme = CPLUS tags then
        (case (if order = 2 then Inr 0.206
               else if order = 3 then Inr 0.00380
               else if order = 4 then Inr 0.0000467
               else if order = 5 then Inr 0.000000428
               else Inl (FatalError ''C_plus scheme not implemented for this order'')) of
           Inl e \<Rightarrow> Inl e
         | Inr c_1d \<Rightarrow>
             (let ap = 1 / 2 powi order * factorial (2 * order)
                         / (factorial order * factorial order)
              in Inr (c_1d * of_int (2 * order + 1) / 2
                        * (factorial order * ap) * (factorial order * ap))))
      else Inl (FatalError ''Invalid VCJH scheme.''))"

definition VCJH_1d :: "real \<Rightarrow> int \<Rightarrow> int \<Rightarrow> real \<Rightarrow> real" where
  "VCJH_1d xi mode order eta =
     (if mode = 0 then
        (-1) powi order / 2
          * (Legendre xi order
             - (eta * Legendre xi (order - 1) + Legendre xi (order + 1)) / (1 + eta))
      else
        0.5 * (Legendre xi order + (eta * Legendre xi (order - 1) + Legendre xi (order + 1)))
          / (1 + eta))"

section \<open>Properties\<close>

subsection \<open>Loop invariants\<close>

lemma for_loop_invariant:
  assumes "P i s" and "i \<le> hi"
    and "\<And>k t. i \<le> k \<Longrightarrow> k < hi \<Longrightarrow> P k t \<Longrightarrow> P (k + 1) (body k t)"
  shows "P hi (for_loop i hi body s)"
  using assms
proof (induct i hi body s rule: for_loop.induct)
  case (1 i hi body s)
  show ?case
  proof (cases "i < hi")
    case True
    have "P hi (for_loop (i + 1) hi body (body i s))"
    proof (rule "1.hyps" [OF True])
      show "P (i + 1) (body i s)" using "1.prems" True by simp
      show "i + 1 \<le> hi" using True by simp
      show "\<And>k t. i + 1 \<le> k \<Longrightarrow> k < hi \<Longrightarrow> P k t \<Longrightarrow> P (k + 1) (body k t)"
        using "1.prems"(3) by simp
    qed
    then show ?thesis using True by (subst for_loop.simps) simp
  next
    case False
    with "1.prems" have "i = hi" by simp
    then show ?thesis using "1.prems"(1) by (subst for_loop.simps) simp
  qed
qed

lemma for_loop_empty: "hi \<le> i \<Longrightarrow> for_loop i hi body s = s"
  by (subst for_loop.simps) simp

lemma for_loop_step: "i < hi \<Longrightarrow> for_loop i hi body s = for_loop (i + 1) hi body (body i s)"
  by (subst for_loop.simps) simp

lemma for_loop_preserves:
  assumes "Q s" and "\<And>k t. i \<le> k \<Longrightarrow> k < hi \<Longrightarrow> Q t \<Longrightarrow> Q (body k t)"
  shows "Q (for_loop i hi body s)"
proof (cases "i \<le> hi")
  case True
  then show ?thesis
    using for_loop_invariant [where P = "\<lambda>_. Q", OF assms(1) True] assms(2) by blast
next
  case False
  then show ?thesis using assms(1) by (simp add: for_loop_empty)
qed

lemma for_loop_uint_invariant:
  assumes "P i s" and "i \<le> hi"
    and "\<And>k t. i \<le> k \<Longrightarrow> k < hi \<Longrightarrow> P k t \<Longrightarrow> P (k + 1) (body k t)"
  shows "P hi (for_loop_uint i hi body s)"
  using assms
proof (induct i hi body s rule: for_loop_uint.induct)
  case (1 i hi body s)
  show ?case
  proof (cases "i < hi")
    case True
    have "P hi (for_loop_uint (i + 1) hi body (body i s))"
    proof (rule "1.hyps" [OF True])
      show "P (i + 1) (body i s)" using "1.prems" True by simp
      show "i + 1 \<le> hi" using True by simp
      show "\<And>k t. i + 1 \<le> k \<Longrightarrow> k < hi \<Longrightarrow> P k t \<Longrightarrow> P (k + 1) (body k t)"
        using "1.prems"(3) by simp
    qed
    then show ?thesis using True by (subst for_loop_uint.simps) simp
  next
    case False
    with "1.prems" have "i = hi" by simp
    then show ?thesis using "1.prems"(1) by (subst for_loop_uint.simps) simp
  qed
qed


subsection \<open>Legendre\<close>

lemma Legendre_neg: "in_mode < 0 \<Longrightarrow> Legendre in_r in_mode = 0"
  by (simp add: Legendre.simps)

lemma Legendre_0: "Legendre in_r 0 = 1"
  by (simp add: Legendre.simps)

lemma Legendre_1: "Legendre in_r 1 = in_r"
  by (simp add: Legendre.simps)

lemma Legendre_rec:
  "2 \<le> n \<Longrightarrow> Legendre r n =
     (of_int (2 * n - 1) * r * Legendre r (n - 1) - of_int (n - 1) * Legendre r (n - 2)) / of_int n"
  by (subst Legendre.simps) simp

lemma Legendre_at_1: "0 \<le> n \<Longrightarrow> Legendre 1 n = 1"
proof (induct "1::real" n rule: Legendre.induct)
  case (1 n)
  show ?case
  proof (cases "n < 2")
    case True
    with "1.prems" have "n = 0 \<or> n = 1" by arith
    then show ?thesis by (auto simp: Legendre_0 Legendre_1)
  next
    case False
    then have n2: "2 \<le> n" by simp
    then have a: "Legendre 1 (n - 1) = 1" and b: "Legendre 1 (n - 2) = 1"
      using "1.hyps" by simp_all
    show ?thesis
      using n2 by (simp add: Legendre_rec a b)
  qed
qed

lemma Legendre_at_m1: "0 \<le> n \<Longrightarrow> Legendre (-1) n = (-1) powi n"
proof (induct "-1::real" n rule: Legendre.induct)
  case (1 n)
  show ?case
  proof (cases "n < 2")
    case True
    with "1.prems" have "n = 0 \<or> n = 1" by arith
    then show ?thesis by (auto simp: Legendre_0 Legendre_1)
  next
    case False
    then have n2: "2 \<le> n" by simp
    then have a: "Legendre (-1) (n - 1) = (-1) powi (n - 1)"
      and b: "Legendre (-1) (n - 2) = (-1) powi (n - 2)"
      using "1.hyps" by simp_all
    have p1: "(-1::real) powi (n - 1) = - ((-1) powi n)"
      by (simp add: power_int_diff)
    have p2: "(-1::real) powi (n - 2) = (-1) powi n"
      by (simp add: power_int_diff)
    show ?thesis
      using n2 by (simp add: Legendre_rec a b p1 p2 field_simps)
  qed
qed

text \<open>
  C6. At the right endpoint every Legendre polynomial of order \<open>n \<ge> 0\<close> is 1, at the left
  endpoint it is \<open>(-1)^n\<close>; order 0 is the constant 1, order 1 the identity, and every
  negative order is the constant 0.
\<close>

theorem Legendre_known_values:
  "(0 \<le> n \<longrightarrow> Legendre 1 n = 1 \<and> Legendre (-1) n = (-1) powi n)
   \<and> Legendre r 0 = 1 \<and> Legendre r 1 = r
   \<and> (n < 0 \<longrightarrow> Legendre r n = 0)"
  by (simp add: Legendre_at_1 Legendre_at_m1 Legendre_0 Legendre_1 Legendre_neg)

theorem Legendre_known_values_witness:
  "(0::int) \<le> 3 \<and> Legendre 1 3 = 1 \<and> Legendre (-1) 3 = -1
   \<and> Legendre (1/2) 0 = 1 \<and> Legendre (1/2) 1 = 1/2
   \<and> (-2::int) < 0 \<and> Legendre (1/2) (-2) = 0"
  using Legendre_known_values [of 3 "1/2"] Legendre_known_values [of "-2" "1/2"]
  by simp

subsection \<open>dLegendre\<close>

text \<open>
  C10. For every order \<open>n \<ge> 1\<close> and every point strictly outside \<open>[-1, 1]\<close>, \<open>dLegendre\<close>
  returns 0: neither the interior formula nor an endpoint formula applies.
\<close>

theorem dLegendre_outside: "1 \<le> n \<Longrightarrow> r < -1 \<or> 1 < r \<Longrightarrow> dLegendre r n = 0"
  by (auto simp: dLegendre_def)

theorem dLegendre_outside_witness:
  "(1::int) \<le> 3 \<and> ((2::real) < -1 \<or> (1::real) < 2) \<and> dLegendre 2 3 = 0
   \<and> dLegendre (-2) 3 = 0"
  using dLegendre_outside [of 3 2] dLegendre_outside [of 3 "-2"] by simp

subsection \<open>eval_gamma\<close>

lemma fact_170_le_DBL_MAX: "(fact 170 :: real) \<le> DBL_MAX"
proof -
  have "(fact 170 :: nat) \<le> (2 ^ 53 - 1) * 2 ^ 971"
    by (simp add: fact_numeral)
  then have "real (fact 170) \<le> real ((2 ^ 53 - 1) * 2 ^ 971)"
    by (rule iffD2 [OF of_nat_le_iff])
  then show ?thesis by (simp add: DBL_MAX_def)
qed

lemma DBL_MAX_less_fact_171: "DBL_MAX < (fact 171 :: real)"
proof -
  have "(2 ^ 53 - 1) * 2 ^ 971 < (fact 171 :: nat)"
    by (simp add: fact_numeral)
  then have "real ((2 ^ 53 - 1) * 2 ^ 971) < real (fact 171)"
    by (rule iffD2 [OF of_nat_less_iff])
  then show ?thesis by (simp add: DBL_MAX_def)
qed

lemma INT_MAX_le_DBL_MAX: "real_of_int INT_MAX \<le> DBL_MAX"
  by (simp add: INT_MAX_def DBL_MAX_def)

lemma fact_pred: "0 < k \<Longrightarrow> (fact (nat k) :: real) = of_int k * fact (nat (k - 1))"
proof -
  assume "0 < k"
  then have "nat k = Suc (nat (k - 1))" by simp
  then have "(fact (nat k) :: real) = of_nat (Suc (nat (k - 1))) * fact (nat (k - 1))"
    by (simp only: fact_Suc of_nat_mult)
  also have "of_nat (Suc (nat (k - 1))) = (of_int k :: real)"
    using \<open>0 < k\<close> by simp
  finally show ?thesis .
qed

lemma eval_gamma_loop:
  "in_n \<noteq> 1 \<Longrightarrow> in_int (in_n - 1) \<Longrightarrow> in_int (in_n - 2) \<Longrightarrow>
     eval_gamma in_n =
       for_loop 0 (in_n - 2)
         (\<lambda>i s. case s of
                   Inl e \<Rightarrow> Inl e
                 | Inr gamma_val \<Rightarrow>
                     if in_int (in_n - 2 - i) \<and> in_int (i + 1)
                     then Inr (dmult gamma_val (Finite (of_int (in_n - 2 - i))))
                     else Inl SignedOverflow)
         (Inr (Finite (of_int (in_n - 1))))"
  by (simp add: eval_gamma_def)

lemma eval_gamma_1: "eval_gamma 1 = Inr (Finite 1)"
  by (simp add: eval_gamma_def)

lemma eval_gamma_nonpos:
  assumes "INT_MIN + 2 \<le> n" and "n \<le> 0"
  shows "eval_gamma n = Inr (Finite (of_int (n - 1)))"
proof -
  have "in_int (n - 1)" and "in_int (n - 2)"
    using assms by (simp_all add: in_int_def INT_MIN_def INT_MAX_def)
  then show ?thesis
    using assms(2) by (simp add: eval_gamma_loop for_loop_empty)
qed

lemma eval_gamma_signed_overflow:
  assumes "n < INT_MIN + 2"
  shows "eval_gamma n = Inl SignedOverflow"
  using assms by (simp add: eval_gamma_def in_int_def INT_MIN_def)

text \<open>
  Both remaining cases rest on one step of the loop: a positive finite \<open>gamma_val\<close> times
  the positive factor \<open>in_n - 2 - i\<close>.
\<close>

lemma eval_gamma_step:
  assumes n: "in_int n" and k: "0 \<le> k" "k < n - 2"
  shows "(case Inr g of
            Inl e \<Rightarrow> Inl e
          | Inr gamma_val \<Rightarrow>
              if in_int (n - 2 - k) \<and> in_int (k + 1)
              then Inr (dmult gamma_val (Finite (of_int (n - 2 - k))))
              else Inl SignedOverflow)
         = (Inr (dmult g (Finite (of_int (n - 2 - k)))) :: error + double)"
  using n k by (simp add: in_int_def INT_MIN_def INT_MAX_def)

lemma eval_gamma_fact:
  assumes "1 \<le> n" and "n \<le> 171"
  shows "eval_gamma n = Inr (Finite (fact (nat (n - 1))))"
proof (cases "n = 1")
  case True
  then show ?thesis by (simp add: eval_gamma_1)
next
  case False
  with assms have n2: "2 \<le> n" by simp
  have ints: "in_int n" "in_int (n - 1)" "in_int (n - 2)"
    using assms by (simp_all add: in_int_def INT_MIN_def INT_MAX_def)
  let ?F = "fact (nat (n - 1)) :: real"
  let ?body = "\<lambda>i s. case s of
                   Inl e \<Rightarrow> Inl e
                 | Inr gamma_val \<Rightarrow>
                     if in_int (n - 2 - i) \<and> in_int (i + 1)
                     then Inr (dmult gamma_val (Finite (of_int (n - 2 - i))))
                     else Inl SignedOverflow"
  let ?P = "\<lambda>i s. 0 \<le> i \<and> i \<le> n - 2
              \<and> (\<exists>v. s = Inr (Finite v) \<and> 0 < v \<and> v * fact (nat (n - 2 - i)) = ?F)"
  have bound: "?F \<le> DBL_MAX"
  proof -
    have "nat (n - 1) \<le> 170" using assms by simp
    then have "?F \<le> fact 170" by (rule fact_mono)
    then show ?thesis using fact_170_le_DBL_MAX by simp
  qed
  have "?F = of_int (n - 1) * fact (nat (n - 2))"
    using fact_pred [of "n - 1"] n2 by simp
  then have init: "?P 0 (Inr (Finite (of_int (n - 1))))" using n2 by simp
  have step: "?P (k + 1) (?body k t)" if k: "0 \<le> k" "k < n - 2" and P: "?P k t" for k t
  proof -
    from P obtain v where v: "t = Inr (Finite v)" "0 < v" "v * fact (nat (n - 2 - k)) = ?F"
      by blast
    let ?f = "real_of_int (n - 2 - k)"
    let ?r = "fact (nat (n - 2 - (k + 1))) :: real"
    have f: "1 \<le> ?f" using k by simp
    have "fact (nat (n - 2 - k)) = ?f * ?r"
      using fact_pred [of "n - 2 - k"] k by simp
    then have prod: "v * ?f * ?r = ?F" using v(3) by (simp add: mult.assoc)
    have pos: "0 < v * ?f" using v(2) f by simp
    have "v * ?f * 1 \<le> v * ?f * ?r"
      using pos by (intro mult_left_mono) (simp_all add: fact_ge_1)
    then have le: "v * ?f \<le> DBL_MAX" using prod bound by simp
    have "?body k t = Inr (dmult (Finite v) (Finite ?f))"
      unfolding v(1) using ints(1) k by (rule eval_gamma_step)
    also have "dmult (Finite v) (Finite ?f) = Finite (v * ?f)"
      using le pos by (simp add: double_of_real_def)
    finally show ?thesis using k pos prod by simp
  qed
  have "?P (n - 2) (for_loop 0 (n - 2) ?body (Inr (Finite (of_int (n - 1)))))"
    using init _ step by (rule for_loop_invariant [where P = ?P]) (use n2 in simp)
  then show ?thesis using False ints by (simp add: eval_gamma_loop)
qed

lemma eval_gamma_infinite:
  assumes "172 \<le> n" and "n \<le> INT_MAX"
  shows "eval_gamma n = Inr PosInf"
proof -
  have ints: "in_int n" "in_int (n - 1)" "in_int (n - 2)"
    using assms by (simp_all add: in_int_def INT_MIN_def INT_MAX_def)
  have n1: "n \<noteq> 1" using assms by simp
  let ?F = "fact (nat (n - 1)) :: real"
  let ?body = "\<lambda>i s. case s of
                   Inl e \<Rightarrow> Inl e
                 | Inr gamma_val \<Rightarrow>
                     if in_int (n - 2 - i) \<and> in_int (i + 1)
                     then Inr (dmult gamma_val (Finite (of_int (n - 2 - i))))
                     else Inl SignedOverflow"
  let ?P = "\<lambda>i s. 0 \<le> i \<and> i \<le> n - 2
              \<and> (s = Inr PosInf
                 \<or> (\<exists>v. s = Inr (Finite v) \<and> 0 < v \<and> v \<le> DBL_MAX
                         \<and> v * fact (nat (n - 2 - i)) = ?F))"
  have large: "DBL_MAX < ?F"
  proof -
    have "171 \<le> nat (n - 1)" using assms by simp
    then have "(fact 171 :: real) \<le> ?F" by (rule fact_mono)
    then show ?thesis using DBL_MAX_less_fact_171 by simp
  qed
  have "real_of_int (n - 1) \<le> real_of_int INT_MAX" using assms by simp
  then have first: "real_of_int (n - 1) \<le> DBL_MAX" using INT_MAX_le_DBL_MAX by simp
  have "?F = of_int (n - 1) * fact (nat (n - 2))"
    using fact_pred [of "n - 1"] assms by simp
  then have init: "?P 0 (Inr (Finite (of_int (n - 1))))" using assms first by simp
  have step: "?P (k + 1) (?body k t)" if k: "0 \<le> k" "k < n - 2" and P: "?P k t" for k t
  proof -
    let ?f = "real_of_int (n - 2 - k)"
    let ?r = "fact (nat (n - 2 - (k + 1))) :: real"
    have f: "1 \<le> ?f" using k by simp
    from P consider "t = Inr PosInf"
      | v where "t = Inr (Finite v)" "0 < v" "v \<le> DBL_MAX" "v * fact (nat (n - 2 - k)) = ?F"
      by blast
    then show ?thesis
    proof cases
      case 1
      have "?body k t = Inr (dmult PosInf (Finite ?f))"
        unfolding 1 using ints(1) k by (rule eval_gamma_step)
      also have "dmult PosInf (Finite ?f) = PosInf"
        using f by (simp add: signed_inf_def)
      finally show ?thesis using k by simp
    next
      case 2
      have "fact (nat (n - 2 - k)) = ?f * ?r"
        using fact_pred [of "n - 2 - k"] k by simp
      then have prod: "v * ?f * ?r = ?F" using 2(4) by (simp add: mult.assoc)
      have pos: "0 < v * ?f" using 2(2) f by simp
      have body: "?body k t = Inr (dmult (Finite v) (Finite ?f))"
        unfolding 2(1) using ints(1) k by (rule eval_gamma_step)
      show ?thesis
      proof (cases "DBL_MAX < v * ?f")
        case True
        then have "dmult (Finite v) (Finite ?f) = PosInf"
          by (simp add: double_of_real_def)
        with body show ?thesis using k by simp
      next
        case False
        then have "dmult (Finite v) (Finite ?f) = Finite (v * ?f)"
          using pos by (simp add: double_of_real_def)
        with body show ?thesis using k pos prod False by simp
      qed
    qed
  qed
  have "?P (n - 2) (for_loop 0 (n - 2) ?body (Inr (Finite (of_int (n - 1)))))"
    using init _ step by (rule for_loop_invariant [where P = ?P]) (use assms in simp)
  then have "?P (n - 2) (eval_gamma n)"
    using n1 ints by (simp add: eval_gamma_loop)
  then show ?thesis using large by auto
qed

text \<open>
  C9, as stated: for every integer \<open>n \<ge> 1\<close> \<open>eval_gamma\<close> returns \<open>(n - 1)!\<close> and for every
  \<open>n \<le> 0\<close> it returns \<open>n - 1\<close>. It does not at \<open>n = 172\<close>, where the product has left the
  range of a double and the result is \<open>+\<infinity>\<close>, nor at \<open>n = INT_MIN\<close> and \<open>n = INT_MIN + 1\<close>,
  where \<open>in_n - 1\<close> and \<open>in_n - 2\<close> are not \<open>int\<close>s.
\<close>

theorem eval_gamma_values_counterexample:
  "eval_gamma 172 \<noteq> Inr (Finite (fact (nat (172 - 1))))
   \<and> eval_gamma (- 2147483648) \<noteq> Inr (Finite (of_int (- 2147483648 - 1)))
   \<and> eval_gamma (- 2147483647) \<noteq> Inr (Finite (of_int (- 2147483647 - 1)))"
  using eval_gamma_infinite [of 172] eval_gamma_signed_overflow [of "- 2147483648"]
    eval_gamma_signed_overflow [of "- 2147483647"]
  by (simp add: INT_MIN_def INT_MAX_def)

text \<open>
  C9, amended. On every \<open>int\<close> \<open>n\<close>, \<open>eval_gamma\<close> (a terminating loop with no error branch)
  returns \<open>(n - 1)!\<close> for \<open>1 \<le> n \<le> 171\<close> (up to the rounding of a double), \<open>+\<infinity>\<close> for
  \<open>n \<ge> 172\<close>, and \<open>n - 1\<close> for \<open>INT_MIN + 2 \<le> n \<le> 0\<close>; at \<open>n = INT_MIN\<close> and
  \<open>n = INT_MIN + 1\<close> a subtraction overflows and the call is undefined.
\<close>

theorem eval_gamma_values:
  assumes "in_int n"
  shows "(1 \<le> n \<and> n \<le> 171 \<longrightarrow> eval_gamma n = Inr (Finite (fact (nat (n - 1)))))
         \<and> (172 \<le> n \<longrightarrow> eval_gamma n = Inr PosInf)
         \<and> (INT_MIN + 2 \<le> n \<and> n \<le> 0 \<longrightarrow> eval_gamma n = Inr (Finite (of_int (n - 1))))
         \<and> (n < INT_MIN + 2 \<longrightarrow> eval_gamma n = Inl SignedOverflow)"
  using assms
  by (simp add: eval_gamma_fact eval_gamma_infinite eval_gamma_nonpos
      eval_gamma_signed_overflow in_int_def)

theorem eval_gamma_values_witness:
  "in_int 5 \<and> eval_gamma 5 = Inr (Finite 24)
   \<and> in_int 200 \<and> eval_gamma 200 = Inr PosInf
   \<and> in_int 0 \<and> eval_gamma 0 = Inr (Finite (- 1))
   \<and> in_int (- 3) \<and> eval_gamma (- 3) = Inr (Finite (- 4))
   \<and> in_int (- 2147483648) \<and> eval_gamma (- 2147483648) = Inl SignedOverflow"
  using eval_gamma_values [of 5] eval_gamma_values [of 200] eval_gamma_values [of 0]
    eval_gamma_values [of "- 3"] eval_gamma_values [of "- 2147483648"]
  by (simp add: in_int_def INT_MIN_def INT_MAX_def fact_numeral)

subsection \<open>Lagrange\<close>

lemma Lagrange_own_node:
  assumes d: "distinct X" and m: "m < length X"
  shows "Lagrange X (X ! m) m = Inr 1"
proof -
  let ?body = "\<lambda>i lag. if i \<noteq> m then
            (case lag of
               Inl e \<Rightarrow> Inl e
             | Inr l \<Rightarrow>
                 if i < length X \<and> m < length X
                 then Inr (l * ((X ! m - X ! i) / (X ! m - X ! i)))
                 else Inl OutOfRange)
          else lag"
  let ?P = "\<lambda>(i::nat) s. s = (Inr 1 :: error + real)"
  have step: "?P (k + 1) (?body k t)" if "0 \<le> k" "k < length X" "?P k t" for k t
  proof -
    have "k \<noteq> m \<Longrightarrow> X ! m \<noteq> X ! k"
      using d m that(2) by (simp add: nth_eq_iff_index_eq)
    then show ?thesis using that m by simp
  qed
  have "?P (length X) (for_loop_uint 0 (length X) ?body (Inr 1))"
    using _ _ step by (rule for_loop_uint_invariant [where P = ?P]) simp_all
  then show ?thesis by (simp add: Lagrange_def)
qed

lemma Lagrange_other_node:
  assumes d: "distinct X" and m: "m < length X" and k: "k < length X" and km: "k \<noteq> m"
  shows "Lagrange X (X ! k) m = Inr 0"
proof -
  let ?body = "\<lambda>i lag. if i \<noteq> m then
            (case lag of
               Inl e \<Rightarrow> Inl e
             | Inr l \<Rightarrow>
                 if i < length X \<and> m < length X
                 then Inr (l * ((X ! k - X ! i) / (X ! m - X ! i)))
                 else Inl OutOfRange)
          else lag"
  let ?P = "\<lambda>(i::nat) s. \<exists>l. s = (Inr l :: error + real) \<and> (k < i \<longrightarrow> l = 0)"
  have step: "?P (j + 1) (?body j t)" if "0 \<le> j" "j < length X" "?P j t" for j t
  proof -
    from that(3) obtain l where l: "t = Inr l" "k < j \<longrightarrow> l = 0" by blast
    show ?thesis
    proof (cases "j = m")
      case True
      then show ?thesis using l km by auto
    next
      case False
      have "k < j + 1 \<Longrightarrow> l * ((X ! k - X ! j) / (X ! m - X ! j)) = 0"
        using l(2) by (cases "k = j") auto
      then show ?thesis using False l(1) that(2) m by simp
    qed
  qed
  have "?P (length X) (for_loop_uint 0 (length X) ?body (Inr 1))"
    using _ _ step by (rule for_loop_uint_invariant [where P = ?P]) simp_all
  then show ?thesis using k by (auto simp: Lagrange_def)
qed


text \<open>
  C7. For pairwise distinct nodes \<open>X\<close> and a mode \<open>m\<close> below the number of nodes, the
  \<open>m\<close>-th Lagrange polynomial is 1 at its own node and 0 at every other node of \<open>X\<close>.
\<close>

theorem Lagrange_exactness:
  assumes "distinct X" and "m < length X"
  shows "Lagrange X (X ! m) m = Inr 1
         \<and> (\<forall>k<length X. k \<noteq> m \<longrightarrow> Lagrange X (X ! k) m = Inr 0)"
  using assms by (simp add: Lagrange_own_node Lagrange_other_node)

theorem Lagrange_exactness_witness:
  "distinct [0, 1/2, 1::real] \<and> (1::nat) < length [0, 1/2, 1::real]
   \<and> Lagrange [0, 1/2, 1] (1/2) 1 = Inr 1
   \<and> Lagrange [0, 1/2, 1] 0 1 = Inr 0
   \<and> Lagrange [0, 1/2, 1] 1 1 = Inr 0"
proof -
  have d: "distinct [0, 1/2, 1::real]" by simp
  have m: "(1::nat) < length [0, 1/2, 1::real]" by simp
  have own: "Lagrange [0, 1/2, 1] ([0, 1/2, 1] ! 1) 1 = Inr 1"
    and others: "\<forall>k<length [0, 1/2, 1::real]. k \<noteq> 1
                   \<longrightarrow> Lagrange [0, 1/2, 1] ([0, 1/2, 1] ! k) 1 = Inr 0"
    using Lagrange_exactness [OF d m] by blast+
  have "Lagrange [0, 1/2, 1] ([0, 1/2, 1] ! 0) 1 = Inr 0"
    using others [rule_format, of 0] by simp
  moreover have "Lagrange [0, 1/2, 1] ([0, 1/2, 1] ! 2) 1 = Inr 0"
    using others [rule_format, of 2] by simp
  ultimately show ?thesis using d m own by simp
qed

subsection \<open>Negative mode indices\<close>

lemma sdiv_2_pos: "2 \<le> a \<Longrightarrow> 0 < a sdiv (2::int)"
  by (simp add: signed_divide_int_def sgn_if)

lemma n_dof_triangle_pos: "0 \<le> p \<Longrightarrow> 0 < ((p + 1) * (p + 2)) sdiv (2::int)"
proof -
  assume p: "0 \<le> p"
  have "2 \<le> (p + 1) * (p + 2)"
    using p mult_mono [of 1 "p + 1" 2 "p + 2"] by simp
  then show ?thesis by (rule sdiv_2_pos)
qed

lemma dubiner_sweep_negative:
  assumes neg: "in_mode < 0"
    and body: "\<And>k j mode v. mode \<noteq> in_mode \<Longrightarrow> body k j (Some (mode, v)) = Some (mode + 1, v)"
  shows "\<exists>m\<ge>0. for_loop 0 hi (\<lambda>k. for_loop 0 (k + 1) (body k)) (Some (0, 0::real)) = Some (m::int, 0)"
proof -
  let ?Q = "\<lambda>s. \<exists>m\<ge>0. s = Some (m::int, 0::real)"
  have inner: "?Q (for_loop 0 (k + 1) (body k) s)" if "?Q s" for k s
    using that
  proof (rule for_loop_preserves [where Q = ?Q])
    fix j t assume "?Q t"
    then obtain m where "0 \<le> m" "t = Some (m, 0)" by blast
    then show "?Q (body k j t)" using neg body [of m k j 0] by auto
  qed
  have "?Q (for_loop 0 hi (\<lambda>k. for_loop 0 (k + 1) (body k)) (Some (0, 0)))"
    by (rule for_loop_preserves [where Q = ?Q]) (simp_all add: inner)
  then show ?thesis by blast
qed

lemma eval_dubiner_basis_2d_negative:
  assumes "in_mode < 0" "0 \<le> in_basis_order"
  shows "eval_dubiner_basis_2d ab_init in_rs in_mode in_basis_order = Some (Inr 0)"
proof -
  have "\<exists>m\<ge>0. eval_dubiner_basis_2d_sweep (rs_to_ab ab_init in_rs) in_mode in_basis_order = Some (m, 0)"
    unfolding eval_dubiner_basis_2d_sweep_def
    by (rule dubiner_sweep_negative [OF assms(1)]) simp
  moreover have "in_mode < ((in_basis_order + 1) * (in_basis_order + 2)) sdiv 2"
    using n_dof_triangle_pos [OF assms(2)] assms(1) by simp
  ultimately show ?thesis by (auto simp: eval_dubiner_basis_2d_def)
qed

lemma eval_dr_dubiner_basis_2d_negative:
  assumes "in_mode < 0" "0 \<le> in_basis_order"
  shows "eval_dr_dubiner_basis_2d ab_init in_rs in_mode in_basis_order = Some (Inr 0)"
proof -
  have "\<exists>m\<ge>0. eval_dr_dubiner_basis_2d_sweep (rs_to_ab ab_init in_rs) in_mode in_basis_order
               = Some (m, 0)"
    unfolding eval_dr_dubiner_basis_2d_sweep_def
    by (rule dubiner_sweep_negative [OF assms(1)]) simp
  moreover have "in_mode < ((in_basis_order + 1) * (in_basis_order + 2)) sdiv 2"
    using n_dof_triangle_pos [OF assms(2)] assms(1) by simp
  ultimately show ?thesis by (auto simp: eval_dr_dubiner_basis_2d_def)
qed

lemma eval_ds_dubiner_basis_2d_negative:
  assumes "in_mode < 0" "0 \<le> in_basis_order"
  shows "eval_ds_dubiner_basis_2d ab_init in_rs in_mode in_basis_order = Some (Inr 0)"
proof -
  have "\<exists>m\<ge>0. eval_ds_dubiner_basis_2d_sweep (rs_to_ab ab_init in_rs) in_mode in_basis_order
               = Some (m, 0)"
    unfolding eval_ds_dubiner_basis_2d_sweep_def
    by (rule dubiner_sweep_negative [OF assms(1)]) simp
  moreover have "in_mode < ((in_basis_order + 1) * (in_basis_order + 2)) sdiv 2"
    using n_dof_triangle_pos [OF assms(2)] assms(1) by simp
  ultimately show ?thesis by (auto simp: eval_ds_dubiner_basis_2d_def)
qed

lemma square_sweep_negative:
  assumes neg: "in_mode < 0"
    and body: "\<And>k j mode v. mode \<noteq> in_mode \<Longrightarrow>
                 body k j (mode, v) = (mode + 1, v) \<or> body k j (mode, v) = (mode, v)"
  shows "\<exists>m\<ge>0. for_loop 0 hi (\<lambda>k. for_loop 0 (k + 1) (body k)) (0, v0) = (m::int, v0)"
proof -
  let ?Q = "\<lambda>s. \<exists>m\<ge>0. s = (m::int, v0)"
  have inner: "?Q (for_loop 0 (k + 1) (body k) s)" if "?Q s" for k s
    using that
  proof (rule for_loop_preserves [where Q = ?Q])
    fix j t assume "?Q t"
    then obtain m where "0 \<le> m" "t = (m, v0)" by blast
    then show "?Q (body k j t)" using neg body [of m k j v0] by auto
  qed
  have "?Q (for_loop 0 hi (\<lambda>k. for_loop 0 (k + 1) (body k)) (0, v0))"
    by (rule for_loop_preserves [where Q = ?Q]) (simp_all add: inner)
  then show ?thesis by blast
qed

lemma Legendre2D_hierarchical_negative:
  assumes "in_mode < 0"
  shows "Legendre2D_hierarchical in_mode in_loc in_basis_order = Inr 0"
proof -
  have "\<exists>m\<ge>0. Legendre2D_hierarchical_sweep in_mode in_loc in_basis_order = (m, Inr 0)"
    unfolding Legendre2D_hierarchical_sweep_def
    by (rule square_sweep_negative [OF assms]) (simp add: Let_def)
  moreover have "in_mode < (in_basis_order + 1) * (in_basis_order + 1)"
    using assms zero_le_square [of "in_basis_order + 1"] by linarith
  ultimately show ?thesis by (auto simp: Legendre2D_hierarchical_def)
qed

lemma exponential_filter_negative:
  assumes "in_mode < 0"
  shows "exponential_filter in_mode inBasisOrder exponent = Inr 0"
proof -
  have "\<exists>m\<ge>0. exponential_filter_sweep in_mode inBasisOrder exponent = (m, 0)"
    unfolding exponential_filter_sweep_def Let_def
    by (rule square_sweep_negative [OF assms]) simp
  moreover have "in_mode < (inBasisOrder + 1) * (inBasisOrder + 1)"
    using assms zero_le_square [of "inBasisOrder + 1"] by linarith
  ultimately show ?thesis by (auto simp: exponential_filter_def)
qed

text \<open>
  C8. For a negative mode index and a truncation order \<open>\<ge> 0\<close>, at every input point,
  the three Dubiner functions, the hierarchical Legendre basis and the exponential filter
  return 0 and raise no fatal error: the guard \<open>mode < n_dof\<close> lets the mode through
  and the sweep's counter, which starts at 0, never equals it.
\<close>

theorem negative_mode_returns_zero:
  assumes "in_mode < 0" and "0 \<le> in_basis_order"
  shows "eval_dubiner_basis_2d ab_init in_rs in_mode in_basis_order = Some (Inr 0)
         \<and> eval_dr_dubiner_basis_2d ab_init in_rs in_mode in_basis_order = Some (Inr 0)
         \<and> eval_ds_dubiner_basis_2d ab_init in_rs in_mode in_basis_order = Some (Inr 0)
         \<and> Legendre2D_hierarchical in_mode in_loc in_basis_order = Inr 0
         \<and> exponential_filter in_mode in_basis_order exponent = Inr 0"
  using assms
  by (simp add: eval_dubiner_basis_2d_negative eval_dr_dubiner_basis_2d_negative
      eval_ds_dubiner_basis_2d_negative Legendre2D_hierarchical_negative
      exponential_filter_negative)

theorem negative_mode_returns_zero_witness:
  "(-1::int) < 0 \<and> (0::int) \<le> 2
   \<and> eval_dubiner_basis_2d \<lparr>px = 0, py = 0\<rparr> \<lparr>px = -1/3, py = -1/3\<rparr> (-1) 2 = Some (Inr 0)
   \<and> eval_dr_dubiner_basis_2d \<lparr>px = 0, py = 0\<rparr> \<lparr>px = -1/3, py = -1/3\<rparr> (-1) 2 = Some (Inr 0)
   \<and> eval_ds_dubiner_basis_2d \<lparr>px = 0, py = 0\<rparr> \<lparr>px = -1/3, py = -1/3\<rparr> (-1) 2 = Some (Inr 0)
   \<and> Legendre2D_hierarchical (-1) [1/2, 1/4] 2 = Inr 0
   \<and> exponential_filter (-1) 2 4 = Inr 0"
  using negative_mode_returns_zero
    [of "-1" 2 "\<lparr>px = 0, py = 0\<rparr>" "\<lparr>px = -1/3, py = -1/3\<rparr>" "[1/2, 1/4]" 4]
  by simp

subsection \<open>Mode 0 of the Dubiner basis\<close>

lemma finite_gamma_1: "finite_gamma 1 = Some 1"
  by (simp add: finite_gamma_def eval_gamma_1)

lemma finite_gamma_2: "finite_gamma 2 = Some 1"
  using eval_gamma_fact [of 2] by (simp add: finite_gamma_def)

lemma finite_gamma_3: "finite_gamma 3 = Some 2"
  using eval_gamma_fact [of 3] by (simp add: finite_gamma_def fact_numeral)

lemma eval_jacobi_0_0_0: "eval_jacobi r 0 0 0 = Some (sqrt (1/2))"
  by (subst eval_jacobi.simps) (simp add: finite_gamma_1 finite_gamma_2)

lemma eval_jacobi_1_0_0: "eval_jacobi r 1 0 0 = Some (sqrt (1/2))"
  by (subst eval_jacobi.simps)
    (simp add: finite_gamma_1 finite_gamma_2 finite_gamma_3 power_int_minus)

lemma sqrt_half_product: "sqrt 2 * sqrt (1/2) * sqrt (1/2) = sqrt 2 / 2"
  by (simp add: real_sqrt_divide real_div_sqrt)

lemma eval_dubiner_basis_2d_sweep_mode_0:
  assumes "0 \<le> in_basis_order"
  shows "\<exists>m\<ge>1. eval_dubiner_basis_2d_sweep ab 0 in_basis_order = Some (m, sqrt 2 / 2)"
proof -
  let ?inner = "\<lambda>k j s. do {
             (mode, dubiner_basis_2d) \<leftarrow> s;
             let i = k - j;
             if mode = 0 then do {
               jacobi_0 \<leftarrow> eval_jacobi (px ab) 0 0 i;
               jacobi_1 \<leftarrow> eval_jacobi (py ab) ((2 * i) + 1) 0 j;
               Some (mode + 1, sqrt 2 * jacobi_0 * jacobi_1 * (1 - py ab) powi i)
             } else Some (mode + 1 :: int, dubiner_basis_2d)
           }"
  let ?outer = "\<lambda>k. for_loop 0 (k + 1) (?inner k)"
  let ?Q = "\<lambda>s. \<exists>m\<ge>1. s = Some (m::int, sqrt 2 / 2)"
  have first: "?outer 0 (Some (0, 0)) = Some (1, sqrt 2 / 2)"
    by (simp add: for_loop_step [of 0 1] for_loop_empty eval_jacobi_0_0_0 eval_jacobi_1_0_0
        sqrt_half_product)
  have inner: "?Q (?outer k s)" if "?Q s" for k s
    using that by (rule for_loop_preserves [where Q = ?Q]) auto
  have "?Q (for_loop 1 (in_basis_order + 1) ?outer (Some (1, sqrt 2 / 2)))"
    by (rule for_loop_preserves [where Q = ?Q]) (simp_all add: inner)
  moreover have "eval_dubiner_basis_2d_sweep ab 0 in_basis_order
      = for_loop 1 (in_basis_order + 1) ?outer (?outer 0 (Some (0, 0)))"
    unfolding eval_dubiner_basis_2d_sweep_def using assms
    by (subst for_loop_step) simp_all
  ultimately show ?thesis by (simp only: first)
qed

lemma eval_dubiner_basis_2d_mode_0:
  assumes "0 \<le> in_basis_order"
  shows "eval_dubiner_basis_2d ab_init in_rs 0 in_basis_order = Some (Inr (sqrt 2 / 2))"
proof -
  obtain m where "eval_dubiner_basis_2d_sweep (rs_to_ab ab_init in_rs) 0 in_basis_order
                    = Some (m, sqrt 2 / 2)"
    using eval_dubiner_basis_2d_sweep_mode_0 [OF assms] by blast
  then show ?thesis
    using n_dof_triangle_pos [OF assms] by (simp add: eval_dubiner_basis_2d_def)
qed

text \<open>
  C3, as stated: mode 0 of \<open>eval_dubiner_basis_2d\<close> is the constant \<open>\<surd>2\<close>. It is not: at
  the centroid of the reference triangle, truncation order 2, the value is \<open>\<surd>2 / 2\<close>.
\<close>

theorem eval_dubiner_basis_2d_mode_0_not_sqrt_2:
  "eval_dubiner_basis_2d \<lparr>px = 0, py = 0\<rparr> \<lparr>px = -1/3, py = -1/3\<rparr> 0 2 \<noteq> Some (Inr (sqrt 2))"
  using eval_dubiner_basis_2d_mode_0 [of 2 "\<lparr>px = 0, py = 0\<rparr>" "\<lparr>px = -1/3, py = -1/3\<rparr>"]
  by simp

text \<open>
  C3, amended. For every truncation order \<open>\<ge> 0\<close> and every point, \<open>eval_dubiner_basis_2d\<close>
  with mode 0 returns the constant \<open>\<surd>2 / 2\<close> (that is \<open>1 / \<surd>2\<close>, the orthonormal
  constant on a triangle of area 2), whatever the point and whatever the fields of a
  default-constructed \<open>point\<close>.
\<close>

theorem eval_dubiner_basis_2d_mode_0_constant:
  "0 \<le> in_basis_order \<Longrightarrow>
     eval_dubiner_basis_2d ab_init in_rs 0 in_basis_order = Some (Inr (sqrt 2 / 2))"
  by (rule eval_dubiner_basis_2d_mode_0)

theorem eval_dubiner_basis_2d_mode_0_constant_witness:
  "(0::int) \<le> 2
   \<and> eval_dubiner_basis_2d \<lparr>px = 0, py = 0\<rparr> \<lparr>px = -1/3, py = -1/3\<rparr> 0 2
       = Some (Inr (sqrt 2 / 2))"
  using eval_dubiner_basis_2d_mode_0_constant
    [of 2 "\<lparr>px = 0, py = 0\<rparr>" "\<lparr>px = -1/3, py = -1/3\<rparr>"]
  by simp

subsection \<open>compute_eta\<close>

lemma compute_eta_fatal_iff:
  assumes "distinct [DG tags, SD tags, HU tags, CPLUS tags]"
  shows "isl (compute_eta tags s order) \<longleftrightarrow>
           (order = 0 \<and> s \<noteq> DG tags)
           \<or> (s = CPLUS tags \<and> order \<notin> {2, 3, 4, 5})
           \<or> s \<notin> {DG tags, SD tags, HU tags, CPLUS tags}"
  using assms by (auto simp: compute_eta_def)

lemma compute_eta_DG: "compute_eta tags (DG tags) order = Inr 0"
  by (simp add: compute_eta_def)

lemma compute_eta_SD:
  assumes "distinct [DG tags, SD tags, HU tags, CPLUS tags]" "order \<noteq> 0"
  shows "compute_eta tags (SD tags) order = Inr (of_int order / of_int (order + 1))"
  using assms by (simp add: compute_eta_def)

lemma compute_eta_HU:
  assumes "distinct [DG tags, SD tags, HU tags, CPLUS tags]" "order \<noteq> 0"
  shows "compute_eta tags (HU tags) order = Inr (of_int (order + 1) / of_int order)"
  using assms by (simp add: compute_eta_def)

text \<open>
  C5. With pairwise distinct scheme tags, \<open>compute_eta\<close> ends in a fatal error exactly
  when the order is 0 and the scheme is not DG, or the scheme is CPlus and the order is
  not one of 2, 3, 4, 5, or the scheme is none of the four tags. Otherwise it returns 0 for
  DG at every order, \<open>order / (order + 1)\<close> for SD and \<open>(order + 1) / order\<close> for HU. (For SD
  at order \<open>-1\<close> the quotient has denominator 0; the statement there says only that the
  quotient is returned.)
\<close>

theorem compute_eta_spec:
  assumes "distinct [DG tags, SD tags, HU tags, CPLUS tags]"
  shows "(isl (compute_eta tags s order) \<longleftrightarrow>
            (order = 0 \<and> s \<noteq> DG tags)
            \<or> (s = CPLUS tags \<and> order \<notin> {2, 3, 4, 5})
            \<or> s \<notin> {DG tags, SD tags, HU tags, CPLUS tags})
         \<and> compute_eta tags (DG tags) order = Inr 0
         \<and> (order \<noteq> 0 \<longrightarrow>
              compute_eta tags (SD tags) order = Inr (of_int order / of_int (order + 1)))
         \<and> (order \<noteq> 0 \<longrightarrow>
              compute_eta tags (HU tags) order = Inr (of_int (order + 1) / of_int order))"
  using compute_eta_fatal_iff [OF assms] compute_eta_DG compute_eta_SD [OF assms]
    compute_eta_HU [OF assms]
  by blast

theorem compute_eta_spec_witness:
  "distinct [DG \<lparr>DG = 0, SD = 1, HU = 2, CPLUS = 3\<rparr>, SD \<lparr>DG = 0, SD = 1, HU = 2, CPLUS = 3\<rparr>,
             HU \<lparr>DG = 0, SD = 1, HU = 2, CPLUS = 3\<rparr>, CPLUS \<lparr>DG = 0, SD = 1, HU = 2, CPLUS = 3\<rparr>]
   \<and> isl (compute_eta \<lparr>DG = 0, SD = 1, HU = 2, CPLUS = 3\<rparr> 1 0)
   \<and> isl (compute_eta \<lparr>DG = 0, SD = 1, HU = 2, CPLUS = 3\<rparr> 3 6)
   \<and> isl (compute_eta \<lparr>DG = 0, SD = 1, HU = 2, CPLUS = 3\<rparr> 7 3)
   \<and> \<not> isl (compute_eta \<lparr>DG = 0, SD = 1, HU = 2, CPLUS = 3\<rparr> 3 4)
   \<and> compute_eta \<lparr>DG = 0, SD = 1, HU = 2, CPLUS = 3\<rparr> 0 3 = Inr 0
   \<and> compute_eta \<lparr>DG = 0, SD = 1, HU = 2, CPLUS = 3\<rparr> 1 3 = Inr (3/4)
   \<and> compute_eta \<lparr>DG = 0, SD = 1, HU = 2, CPLUS = 3\<rparr> 2 3 = Inr (4/3)"
  using compute_eta_spec [of "\<lparr>DG = 0, SD = 1, HU = 2, CPLUS = 3\<rparr>" 1 0]
    compute_eta_spec [of "\<lparr>DG = 0, SD = 1, HU = 2, CPLUS = 3\<rparr>" 3 6]
    compute_eta_spec [of "\<lparr>DG = 0, SD = 1, HU = 2, CPLUS = 3\<rparr>" 7 3]
    compute_eta_spec [of "\<lparr>DG = 0, SD = 1, HU = 2, CPLUS = 3\<rparr>" 3 4]
  by simp

subsection \<open>VCJH_1d at the endpoints\<close>

lemma VCJH_1d_left:
  assumes o: "0 \<le> order" and e: "0 \<le> eta" and c: "1 \<le> order \<or> eta = 0"
  shows "VCJH_1d (-1) 0 order eta = 1 \<and> VCJH_1d 1 0 order eta = 0"
proof (cases "order = 0")
  case True
  with c have "eta = 0" by simp
  with True show ?thesis
    by (simp add: VCJH_1d_def Legendre_0 Legendre_1 Legendre_neg)
next
  case False
  with o have o1: "1 \<le> order" by simp
  define s :: real where "s = (-1) powi order"
  have ss: "s * s = 1"
    unfolding s_def by (simp flip: power_int_mult_distrib)
  have l0: "Legendre (-1) order = s" using o by (simp add: Legendre_at_m1 s_def)
  have lm: "Legendre (-1) (order - 1) = - s"
    using o1 by (simp add: Legendre_at_m1 s_def power_int_diff)
  have lp: "Legendre (-1) (order + 1) = - s"
    using o by (simp add: Legendre_at_m1 s_def power_int_add)
  have e1: "1 + eta \<noteq> 0" using e by simp
  have "(eta * (- s) + (- s)) / (1 + eta) = - s"
    using e1 by (simp add: field_simps)
  then have "VCJH_1d (-1) 0 order eta = s / 2 * (s - (- s))"
    by (simp add: VCJH_1d_def l0 lm lp s_def)
  also have "\<dots> = 1" using ss by simp
  finally have a: "VCJH_1d (-1) 0 order eta = 1" .
  have "(eta * 1 + 1) / (1 + eta) = 1" using e1 by (simp add: field_simps)
  then have b: "VCJH_1d 1 0 order eta = 0"
    using o o1 by (simp add: VCJH_1d_def Legendre_at_1)
  from a b show ?thesis ..
qed

text \<open>
  The right function at its own endpoint: first as the code computes it, then with the
  division placed as in the left function and in \<open>dVCJH_1d\<close>, where only the pair
  weighted by \<open>eta\<close> is divided by \<open>1 + eta\<close>.
\<close>

lemma VCJH_1d_right_at_1_value:
  assumes "1 \<le> order" and "0 \<le> eta"
  shows "VCJH_1d 1 1 order eta = (2 + eta) / (2 * (1 + eta))"
  using assms by (simp add: VCJH_1d_def Legendre_at_1 field_simps)

lemma mirrored_right_at_1:
  assumes "1 \<le> order" and "0 \<le> eta"
  shows "0.5 * (Legendre 1 order
                + (eta * Legendre 1 (order - 1) + Legendre 1 (order + 1)) / (1 + eta)) = 1"
proof -
  have "(eta * 1 + 1) / (1 + eta) = 1" using assms(2) by (simp add: field_simps)
  then show ?thesis using assms(1) by (simp add: Legendre_at_1)
qed

text \<open>
  C1. The left function does what the claim says for every order \<open>\<ge> 1\<close> and \<open>eta \<ge> 0\<close>
  (lemma \<open>VCJH_1d_left\<close>). The right function does not: its branch divides the whole sum
  by \<open>1 + eta\<close>. At order 3 with \<open>eta = 3/4\<close>, the constant of the SD scheme at that
  order, it returns \<open>11/14\<close> at \<open>xi = 1\<close>, where the claim says 1, and \<open>3/14\<close> at
  \<open>xi = -1\<close>, where the claim says 0.
\<close>

theorem VCJH_1d_right_SD_order_3:
  "VCJH_1d 1 1 3 (3/4) = 11/14 \<and> VCJH_1d (-1) 1 3 (3/4) = 3/14"
  using Legendre_at_1 [of 2] Legendre_at_1 [of 3] Legendre_at_1 [of 4]
    Legendre_at_m1 [of 2] Legendre_at_m1 [of 3] Legendre_at_m1 [of 4]
  by (simp add: VCJH_1d_def)

subsection \<open>rs_to_ab\<close>

lemma rs_to_ab_off_apex: "px rs \<noteq> 1 \<Longrightarrow> rs_to_ab ab_init rs = ab_init\<lparr>py := py rs\<rparr>"
  by (simp add: rs_to_ab_def)

lemma rs_to_ab_apex: "px rs = 1 \<Longrightarrow> rs_to_ab ab_init rs = ab_init\<lparr>px := -1, py := py rs\<rparr>"
  by (simp add: rs_to_ab_def)

text \<open>
  C2. \<open>rs_to_ab\<close> returns \<open>b = s\<close>, and \<open>a = -1\<close> when \<open>r = 1\<close>; but when \<open>r \<noteq> 1\<close> it
  stores the quotient formula in the field \<open>y\<close>, which the last assignment overwrites, and
  never assigns the field \<open>x\<close>. At \<open>(0, 0)\<close> and at \<open>(1/2, 0)\<close>, where the formula is 1 and
  2, the returned \<open>a\<close> is in both cases the field \<open>x\<close> of a default-constructed \<open>point\<close>.
\<close>

theorem rs_to_ab_formula_lost:
  "px (rs_to_ab ab_init \<lparr>px = 0, py = 0\<rparr>) = px ab_init
   \<and> px (rs_to_ab ab_init \<lparr>px = 1/2, py = 0\<rparr>) = px ab_init
   \<and> (2 * ((1 + 0) / (1 - 0))) - 1 = (1::real)
   \<and> (2 * ((1 + 1/2) / (1 - 0))) - 1 = (2::real)
   \<and> py (rs_to_ab ab_init \<lparr>px = 0, py = 0\<rparr>) = 0
   \<and> px (rs_to_ab ab_init \<lparr>px = 1, py = 0\<rparr>) = -1"
  by (simp add: rs_to_ab_off_apex rs_to_ab_apex)

subsection \<open>The diagonal sweep on the square at order 1\<close>

lemma Legendre2D_hierarchical_sweep_order_1:
  "Legendre2D_hierarchical_sweep in_mode in_loc 1 =
     for_loop 0 2
       (\<lambda>k. for_loop 0 (k + 1)
          (\<lambda>j (mode, leg_basis).
             if k - j \<le> 1 \<and> j \<le> 1 then
               (mode + 1,
                if mode = in_mode then
                  (if 1 < length in_loc
                   then Inr (Legendre (in_loc ! 0) (k - j) * Legendre (in_loc ! 1) j)
                   else Inl OutOfRange)
                else leg_basis)
             else (mode, leg_basis)))
       (0, Inr 0)"
  by (simp add: Legendre2D_hierarchical_sweep_def Let_def)

text \<open>
  C4. At order 1 the square has \<open>(1 + 1)\<^sup>2 = 4\<close> modes and the guard of
  \<open>Legendre2D_hierarchical\<close> admits mode 3, but the outer loop stops at diagonal
  \<open>k = 1 * 1\<close>: the sweep ends with its counter at 3, the pair \<open>(1, 1)\<close> is never
  reached, and mode 3 returns 0 where the basis function is \<open>x * y\<close>.
\<close>

theorem Legendre2D_hierarchical_order_1_mode_3:
  "fst (Legendre2D_hierarchical_sweep 3 [1/2, 1/2] 1) = 3
   \<and> Legendre2D_hierarchical 3 [1/2, 1/2] 1 = Inr 0
   \<and> Legendre (1/2) 1 * Legendre (1/2) 1 = 1/4"
  by (simp add: Legendre2D_hierarchical_def Legendre2D_hierarchical_sweep_order_1
      for_loop.simps Legendre_1)

end
